theory Spec2Isabelle
  imports Complex_Main "HOL-Library.Word"
begin

section \<open>JavaScript strings\<close>

text \<open>
  A JavaScript string is a sequence of UTF-16 code units; \<open>length\<close>, \<open>substring\<close>,
  \<open>startsWith\<close> and \<open>trim\<close> all work on code units. String literals of the source are
  ASCII and are written \<open>js ''...''\<close>.
\<close>

type_synonym code_unit = "16 word"
type_synonym jsstring = "code_unit list"

definition js :: "string \<Rightarrow> jsstring" where
  "js s = map of_char s"

text \<open>
  \<open>String.prototype.trim\<close> removes WhiteSpace and LineTerminator code units from both
  ends: TAB, LF, VT, FF, CR, SP, NBSP, U+1680, U+2000..U+200A, U+2028, U+2029, U+202F,
  U+205F, U+3000 and U+FEFF.
\<close>

definition isWhiteSpace :: "code_unit \<Rightarrow> bool" where
  "isWhiteSpace c \<longleftrightarrow>
     c \<in> {0x9, 0xA, 0xB, 0xC, 0xD, 0x20, 0xA0, 0x1680, 0x2028, 0x2029, 0x202F, 0x205F,
          0x3000, 0xFEFF}
     \<or> (0x2000 \<le> c \<and> c \<le> 0x200A)"

definition trim :: "jsstring \<Rightarrow> jsstring" where
  "trim s = rev (dropWhile isWhiteSpace (rev (dropWhile isWhiteSpace s)))"

definition startsWith :: "jsstring \<Rightarrow> jsstring \<Rightarrow> bool" where
  "startsWith s p \<longleftrightarrow> take (length p) s = p"

text \<open>\<open>s.substring(start, end)\<close>: both indices are clamped to \<open>[0, length]\<close> and swapped
  when \<open>start > end\<close>.\<close>

definition substring :: "jsstring \<Rightarrow> int \<Rightarrow> int \<Rightarrow> jsstring" where
  "substring s start end' =
     (let len = int (length s);
          a = min (max start 0) len;
          b = min (max end' 0) len;
          from = min a b;
          to = max a b
      in take (nat (to - from)) (drop (nat from) s))"

text \<open>\<open>Array.prototype.join\<close> on an array of strings.\<close>

fun join :: "jsstring list \<Rightarrow> jsstring \<Rightarrow> jsstring" where
  "join [] sep = []"
| "join [x] sep = x"
| "join (x # y # ys) sep = x @ sep @ join (y # ys) sep"

text \<open>\<open>/^\d{4}$/.test(s)\<close>: without the \<open>m\<close> flag the anchors match only at the two ends
  of the input, and \<open>\d\<close> is one of the code units \<open>0\<close>..\<open>9\<close>.\<close>

definition isDigit :: "code_unit \<Rightarrow> bool" where
  "isDigit c \<longleftrightarrow> 0x30 \<le> c \<and> c \<le> 0x39"

definition test_4_digits :: "jsstring \<Rightarrow> bool" where
  "test_4_digits s \<longleftrightarrow> length s = 4 \<and> list_all isDigit s"

section \<open>Activity Logs screen (parent/logs.tsx)\<close>

text \<open>The \<open>Log\<close> interface of the screen. \<open>confidence\<close> is a JavaScript number; only
  \<open>is_safe\<close> takes part in the filtering.\<close>

record Log =
  log_id :: jsstring
  log_profile_id :: jsstring
  log_profile_name :: jsstring
  log_content_type :: jsstring
  detected_at :: jsstring
  is_safe :: bool
  log_confidence :: real
  log_reasons :: "jsstring list"
  content_snippet :: jsstring
  log_url :: "jsstring option"

text \<open>\<open>const filteredLogs = logs.filter((log) => !log.is_safe)\<close>; the screen renders
  one card per element of \<open>filteredLogs\<close>, in order, and the empty state when it is
  empty.\<close>

definition filteredLogs :: "Log list \<Rightarrow> Log list" where
  "filteredLogs logs = filter (\<lambda>log. \<not> is_safe log) logs"

section \<open>Contexts and effects\<close>

text \<open>
  \<open>AuthContext\<close> holds \<open>user\<close> and \<open>token\<close>, \<open>AppModeContext\<close> holds \<open>mode\<close> and
  \<open>selectedProfile\<close>. TypeScript's interface \<open>User\<close> is erased at run time, and
  \<open>updatePin\<close> builds \<open>{ ...user!, pin }\<close>, which for a null \<open>user\<close> is an object with
  the field \<open>pin\<close> only: every field is optional in the model.
\<close>

record User =
  user_id :: "jsstring option"
  user_email :: "jsstring option"
  user_name :: "jsstring option"
  user_pin :: "jsstring option"

datatype AppMode = Parent | Child

record Profile =
  profile_id :: jsstring
  profile_name :: jsstring
  age :: int
  maturity_level :: jsstring

text \<open>The body of a POST to \<open>/api/content/analyze\<close> and the fields of its response
  that the browser reads.\<close>

record analyze_request =
  req_profile_id :: "jsstring option"
  content_type :: jsstring
  content :: jsstring
  req_context :: jsstring

record analyze_response =
  blocked_d :: bool
  reasons_d :: "jsstring list"

text \<open>An awaited promise either resolves with a value or rejects; a rejection of an
  axios call carries \<open>error.response?.data?.detail\<close> when the server sent one.\<close>

datatype 'a outcome = Rejected "jsstring option" | Resolved 'a

text \<open>What a handler does to the outside world, in the order it does it.\<close>

datatype effect =
    Alert jsstring jsstring
  | ConsoleError
  | RouterPush jsstring
  | RouterReplace jsstring
  | WebViewReload
  | WebViewStopLoading
  | PostAnalyze analyze_request
  | PutPin jsstring
  | StorageSetUser User

record app =
  user :: "User option"
  token :: "jsstring option"
  mode :: AppMode
  selectedProfile :: "jsstring option"
  effects :: "effect list"

definition emit :: "effect \<Rightarrow> 'a app_scheme \<Rightarrow> 'a app_scheme" where
  "emit e st = st\<lparr>effects := effects st @ [e]\<rparr>"

text \<open>\<open>user?.pin\<close>: undefined (\<open>None\<close>) when \<open>user\<close> is null or has no \<open>pin\<close>.\<close>

definition pin_of :: "User option \<Rightarrow> jsstring option" where
  "pin_of u = (case u of None \<Rightarrow> None | Some usr \<Rightarrow> user_pin usr)"

text \<open>\<open>!user?.pin\<close> is true for an undefined \<open>pin\<close> and for the empty string.\<close>

definition no_pin :: "User option \<Rightarrow> bool" where
  "no_pin u = (case pin_of u of None \<Rightarrow> True | Some p \<Rightarrow> p = [])"

section \<open>Dashboard (parent/dashboard.tsx)\<close>

text \<open>The alert's "Go to Settings" button is a later user event and is not part of this
  handler's run.\<close>

definition enterChildMode :: "Profile \<Rightarrow> 'a app_scheme \<Rightarrow> 'a app_scheme" where
  "enterChildMode profile st =
     (if no_pin (user st) then
        emit (Alert (js ''PIN Required'')
                (js ''Please set up a PIN in Settings before entering Child Mode'')) st
      else
        emit (RouterPush (js ''/child/browser''))
          (st\<lparr>selectedProfile := Some (profile_id profile), mode := Child\<rparr>))"

section \<open>Child browser (child/browser.tsx)\<close>

record browser = app +
  url :: jsstring
  currentUrl :: jsstring
  canGoBack :: bool
  canGoForward :: bool
  loading :: bool
  blocked :: bool
  blockReason :: jsstring
  exitModalVisible :: bool
  pin :: jsstring

text \<open>The state of a freshly mounted \<open>ChildBrowser\<close> over given contexts.\<close>

definition initial_browser :: "app \<Rightarrow> browser" where
  "initial_browser a =
     \<lparr>user = user a, token = token a, mode = mode a, selectedProfile = selectedProfile a,
      effects = effects a,
      url = js ''https://www.google.com'', currentUrl = js ''https://www.google.com'',
      canGoBack = False, canGoForward = False, loading = False, blocked = False,
      blockReason = [], exitModalVisible = False, pin = []\<rparr>"

text \<open>
  The backend behind \<open>axios.post\<close> is a parameter: it maps the request body to the
  outcome of the awaited call. \<open>analyzeUrl\<close> returns the new state and its boolean.
\<close>

definition url_request :: "browser \<Rightarrow> jsstring \<Rightarrow> analyze_request" where
  "url_request st targetUrl =
     \<lparr>req_profile_id = selectedProfile st, content_type = js ''url'',
      content = targetUrl, req_context = targetUrl\<rparr>"

definition analyzeUrl ::
  "(analyze_request \<Rightarrow> analyze_response outcome) \<Rightarrow> browser \<Rightarrow> jsstring \<Rightarrow> browser \<times> bool"
where
  "analyzeUrl post st targetUrl =
     (let req = url_request st targetUrl;
          st1 = emit (PostAnalyze req) st
      in case post req of
           Resolved d \<Rightarrow>
             if blocked_d d then
               (st1\<lparr>blocked := True, blockReason := join (reasons_d d) (js '', '')\<rparr>, False)
             else (st1, True)
         | Rejected _ \<Rightarrow> (emit ConsoleError st1, True))"

text \<open>
  The \<open>WebView\<close> is rendered only while \<open>blocked\<close> is false, so \<open>webViewRef.current\<close> is
  null behind the block screen and \<open>webViewRef.current?.reload()\<close> does nothing there:
  the \<open>setBlocked(false)\<close> just before it has not been rendered yet.
\<close>

definition handleNavigate ::
  "(analyze_request \<Rightarrow> analyze_response outcome) \<Rightarrow> browser \<Rightarrow> browser"
where
  "handleNavigate post st =
     (let targetUrl = trim (url st) in
      if targetUrl = [] then st
      else
        let targetUrl =
              (if \<not> startsWith targetUrl (js ''http://'') \<and>
                  \<not> startsWith targetUrl (js ''https://'')
               then js ''https://'' @ targetUrl else targetUrl);
            (st2, isSafe) = analyzeUrl post (st\<lparr>loading := True\<rparr>) targetUrl;
            st3 = st2\<lparr>loading := False\<rparr>;
            st4 = st3\<lparr>currentUrl := targetUrl, blocked := False\<rparr>
        in if isSafe then (if blocked st3 then st4 else emit WebViewReload st4)
           else st3)"

text \<open>The value of \<open>targetUrl\<close> with which \<open>handleNavigate\<close> reaches \<open>analyzeUrl\<close>.\<close>

definition targetUrl_of :: "browser \<Rightarrow> jsstring" where
  "targetUrl_of st =
     (let t = trim (url st)
      in if \<not> startsWith t (js ''http://'') \<and> \<not> startsWith t (js ''https://'')
         then js ''https://'' @ t else t)"

text \<open>
  The injected script and \<open>handleWebViewMessage\<close> talk through
  \<open>postMessage(JSON.stringify({type, content}))\<close> and \<open>JSON.parse(event.nativeEvent.data)\<close>.
  The model carries the parsed object; \<open>Unparsable\<close> is event data on which \<open>JSON.parse\<close>
  throws.
\<close>

datatype message = Unparsable | Parsed (msg_type: jsstring) (msg_content: jsstring)

text \<open>The message the injected script posts, on every DOM mutation and once after one
  second, for a page whose \<open>document.body.innerText\<close> is \<open>innerText\<close>.\<close>

definition injectedJavaScript :: "jsstring \<Rightarrow> message" where
  "injectedJavaScript innerText =
     (let bodyText = substring innerText 0 500
      in Parsed (js ''text'') bodyText)"

definition text_request :: "browser \<Rightarrow> jsstring \<Rightarrow> analyze_request" where
  "text_request st c =
     \<lparr>req_profile_id = selectedProfile st, content_type = js ''text'',
      content = c, req_context = currentUrl st\<rparr>"

definition handleWebViewMessage ::
  "(analyze_request \<Rightarrow> analyze_response outcome) \<Rightarrow> browser \<Rightarrow> message \<Rightarrow> browser"
where
  "handleWebViewMessage post st ev =
     (case ev of
        Unparsable \<Rightarrow> emit ConsoleError st
      | Parsed ty c \<Rightarrow>
          if ty = js ''text'' then
            let req = text_request st c;
                st1 = emit (PostAnalyze req) st
            in case post req of
                 Resolved d \<Rightarrow>
                   if blocked_d d then
                     st1\<lparr>blocked := True, blockReason := join (reasons_d d) (js '', '')\<rparr>
                   else st1
               | Rejected _ \<Rightarrow> emit ConsoleError st1
          else st)"

definition handleExitChildMode :: "browser \<Rightarrow> browser" where
  "handleExitChildMode st =
     (if no_pin (user st) then
        emit (Alert (js ''Error'') (js ''PIN not set. Please contact parent.'')) st
      else st\<lparr>exitModalVisible := True\<rparr>)"

text \<open>\<open>pin === user?.pin\<close>: a string is strictly equal to a defined, equal string
  only.\<close>

definition verifyPinAndExit :: "browser \<Rightarrow> browser" where
  "verifyPinAndExit st =
     (if Some (pin st) = pin_of (user st) then
        emit (RouterReplace (js ''/parent/dashboard''))
          (st\<lparr>mode := Parent, exitModalVisible := False, pin := []\<rparr>)
      else
        (emit (Alert (js ''Error'') (js ''Incorrect PIN'')) st)\<lparr>pin := []\<rparr>)"

definition handleUnblock :: "browser \<Rightarrow> browser" where
  "handleUnblock st = st\<lparr>blocked := False, blockReason := []\<rparr>"

text \<open>The requests a run has posted to \<open>/api/content/analyze\<close>, oldest first.\<close>

fun posted :: "effect list \<Rightarrow> analyze_request list" where
  "posted [] = []"
| "posted (PostAnalyze r # es) = r # posted es"
| "posted (_ # es) = posted es"

section \<open>Settings (parent/settings.tsx) and \<open>updatePin\<close> (AuthContext.tsx)\<close>

record settings = app +
  pinModalVisible :: bool
  newPin :: jsstring
  confirmPin :: jsstring

text \<open>The two awaited calls of \<open>updatePin\<close>, \<open>axios.put\<close> to \<open>/api/auth/pin\<close> and
  \<open>AsyncStorage.setItem\<close>, are parameters.\<close>

record pin_env =
  put_pin :: "jsstring \<Rightarrow> unit outcome"
  setItem_user :: "User \<Rightarrow> unit outcome"

text \<open>\<open>error.response?.data?.detail || 'Failed to update PIN'\<close>.\<close>

definition update_pin_message :: "jsstring option \<Rightarrow> jsstring" where
  "update_pin_message detail =
     (case detail of
        None \<Rightarrow> js ''Failed to update PIN''
      | Some d \<Rightarrow> if d = [] then js ''Failed to update PIN'' else d)"

text \<open>\<open>{ ...user!, pin }\<close>.\<close>

definition with_pin :: "User option \<Rightarrow> jsstring \<Rightarrow> User" where
  "with_pin u p =
     (case u of
        None \<Rightarrow> \<lparr>user_id = None, user_email = None, user_name = None, user_pin = Some p\<rparr>
      | Some usr \<Rightarrow> usr\<lparr>user_pin := Some p\<rparr>)"

text \<open>\<open>updatePin\<close> returns the new state, or the message of the \<open>Error\<close> it throws
  together with the state reached. \<open>store_user\<close> is its tail after the PUT has
  resolved: a failing \<open>setItem\<close> is caught by the same handler, which builds the message
  from the error's \<open>response?.data?.detail\<close> in the same way.\<close>

definition store_user ::
  "pin_env \<Rightarrow> 'a app_scheme \<Rightarrow> User \<Rightarrow> (jsstring \<times> 'a app_scheme) + 'a app_scheme"
where
  "store_user env st updatedUser =
     (let st1 = emit (StorageSetUser updatedUser) st
      in case setItem_user env updatedUser of
           Rejected detail \<Rightarrow> Inl (update_pin_message detail, emit ConsoleError st1)
         | Resolved _ \<Rightarrow> Inr (st1\<lparr>user := Some updatedUser\<rparr>))"

definition updatePin ::
  "pin_env \<Rightarrow> 'a app_scheme \<Rightarrow> jsstring \<Rightarrow> (jsstring \<times> 'a app_scheme) + 'a app_scheme"
where
  "updatePin env st p =
     (let st1 = emit (PutPin p) st
      in case put_pin env p of
           Rejected detail \<Rightarrow> Inl (update_pin_message detail, emit ConsoleError st1)
         | Resolved _ \<Rightarrow> store_user env st1 (with_pin (user st) p))"

definition handlePinUpdate :: "pin_env \<Rightarrow> settings \<Rightarrow> settings" where
  "handlePinUpdate env st =
     (if length (newPin st) \<noteq> 4 \<or> \<not> test_4_digits (newPin st) then
        emit (Alert (js ''Error'') (js ''PIN must be 4 digits'')) st
      else if newPin st \<noteq> confirmPin st then
        emit (Alert (js ''Error'') (js ''PINs do not match'')) st
      else
        case updatePin env st (newPin st) of
          Inr st1 \<Rightarrow>
            (emit (Alert (js ''Success'') (js ''PIN updated successfully'')) st1)
              \<lparr>pinModalVisible := False, newPin := [], confirmPin := []\<rparr>
        | Inl (msg, st1) \<Rightarrow> emit (Alert (js ''Error'') msg) st1)"

text \<open>The PINs a run has sent to \<open>PUT /api/auth/pin\<close>, oldest first.\<close>

fun pins_put :: "effect list \<Rightarrow> jsstring list" where
  "pins_put [] = []"
| "pins_put (PutPin p # es) = p # pins_put es"
| "pins_put (_ # es) = pins_put es"

section \<open>Content classifier (backend/server.py)\<close>

text \<open>
  The endpoint behind \<open>/api/content/analyze\<close> lives in \<open>backend/server.py\<close>, which is
  not among the sources at hand; the README documents its three thresholds and the age
  bands they belong to. The classifier below follows the specification, section by
  section. Text is a byte string; the contents of the rule tables, the normaliser and
  the hostname parser, which the specification does not spell out, are parameters.
\<close>

text \<open>Modelled from the spec: the enum \<open>contentType\<close> of a ClassificationRequest
  (\<open>server.py\<close> is missing).\<close>

datatype ContentType = Text | Url | Image

text \<open>Modelled from the spec: the enum \<open>safetyLevel\<close> (\<open>server.py\<close> is missing).\<close>

datatype SafetyLevel = Strict | Moderate | Lenient

text \<open>Modelled from the spec: the ClassificationRequest of section 3 (\<open>server.py\<close> is
  missing).\<close>

record ClassificationRequest =
  contentType :: ContentType
  content_c :: string
  context_c :: string
  safetyLevel :: SafetyLevel

text \<open>Modelled from the spec: a Detection of section 3 (\<open>server.py\<close> is missing).\<close>

record Detection =
  reason :: string
  weight :: real

text \<open>Modelled from the spec: the Verdict of section 3 (\<open>server.py\<close> is missing).\<close>

record Verdict =
  isSafe :: bool
  blocked_v :: bool
  confidence :: real
  reasons :: "string list"

text \<open>Modelled from the spec: the SafetyLevel-to-threshold table of section 3, which is
  also the README's "80%+", "65%+" and "50%+" (\<open>server.py\<close> is missing).\<close>

fun threshold :: "SafetyLevel \<Rightarrow> real" where
  "threshold Strict = 0.80"
| "threshold Moderate = 0.65"
| "threshold Lenient = 0.50"

text \<open>The README's age bands: "Strict (Ages 5-8)", "Moderate (Ages 9-12)",
  "Lenient (Ages 13+)". The band is given by its youngest age.\<close>

fun age_band :: "SafetyLevel \<Rightarrow> nat" where
  "age_band Strict = 5"
| "age_band Moderate = 9"
| "age_band Lenient = 13"

text \<open>Modelled from the spec: the static rule tables of section 4.1 (\<open>server.py\<close> is
  missing). \<open>normalize\<close> lower-cases and strips punctuation, \<open>lower\<close> lower-cases,
  \<open>hostname\<close> extracts the hostname of a URL and fails on an unparsable one;
  \<open>emojiCap\<close> is the number of distinct symbols up to which the emoji category
  accumulates; \<open>urlKeywords\<close> is the list of the URL keyword scan.\<close>

record RuleTables =
  normalize :: "string \<Rightarrow> string"
  lower :: "string \<Rightarrow> string"
  hostname :: "string \<Rightarrow> string option"
  explicitKeywords :: "string list"
  codedSlang :: "string list"
  suggestiveEmoji :: "string list"
  emojiCap :: nat
  violenceKeywords :: "string list"
  adultDomains :: "string list"
  urlKeywords :: "string list"

text \<open>Modelled from the spec: substring match of a term in a text (\<open>server.py\<close> is
  missing).\<close>

fun contains :: "string \<Rightarrow> string \<Rightarrow> bool" where
  "contains [] t = (t = [])"
| "contains (c # cs) t = (take (length t) (c # cs) = t \<or> contains cs t)"

text \<open>Modelled from the spec: the first term of a list that matches, if any
  (\<open>server.py\<close> is missing).\<close>

definition first_match :: "string list \<Rightarrow> string \<Rightarrow> string option" where
  "first_match terms txt = find (contains txt) terms"

text \<open>Modelled from the spec: rule categories 1, 2 and 4 of section 4.1, each
  contributing its weight once (\<open>server.py\<close> is missing).\<close>

definition explicit_category :: "RuleTables \<Rightarrow> string \<Rightarrow> Detection list" where
  "explicit_category T txt =
     (case first_match (explicitKeywords T) txt of
        None \<Rightarrow> []
      | Some t \<Rightarrow> [\<lparr>reason = ''explicit keyword: '' @ t, weight = 0.5\<rparr>])"

text \<open>Modelled from the spec: the coded slang category (\<open>server.py\<close> is missing).\<close>

definition slang_category :: "RuleTables \<Rightarrow> string \<Rightarrow> Detection list" where
  "slang_category T txt =
     (case first_match (codedSlang T) txt of
        None \<Rightarrow> []
      | Some t \<Rightarrow> [\<lparr>reason = ''coded phrase: '' @ t, weight = 0.35\<rparr>])"

text \<open>Modelled from the spec: the violence category (\<open>server.py\<close> is missing).\<close>

definition violence_category :: "RuleTables \<Rightarrow> string \<Rightarrow> Detection list" where
  "violence_category T txt =
     (case first_match (violenceKeywords T) txt of
        None \<Rightarrow> []
      | Some t \<Rightarrow> [\<lparr>reason = ''violence-related content'', weight = 0.4\<rparr>])"

text \<open>Modelled from the spec: rule category 3, matched on the original text, 0.2 for
  each distinct symbol found, up to the cap (\<open>server.py\<close> is missing).\<close>

definition emoji_category :: "RuleTables \<Rightarrow> string \<Rightarrow> Detection list" where
  "emoji_category T original =
     (let found = filter (contains original) (remdups (suggestiveEmoji T))
      in if found = [] then []
         else [\<lparr>reason = ''suggestive emoji'',
                weight = 0.2 * real (min (emojiCap T) (length found))\<rparr>])"

text \<open>Modelled from the spec: rule category 5, on the hostname extracted from the URL
  (\<open>server.py\<close> is missing).\<close>

definition domain_category :: "RuleTables \<Rightarrow> string \<Rightarrow> Detection list" where
  "domain_category T h =
     (if list_ex (contains h) (adultDomains T)
      then [\<lparr>reason = ''known adult domain'', weight = 0.9\<rparr>] else [])"

text \<open>Modelled from the spec: rule category 6 (\<open>server.py\<close> is missing).\<close>

definition url_keyword_category :: "RuleTables \<Rightarrow> string \<Rightarrow> Detection list" where
  "url_keyword_category T u =
     (case first_match (urlKeywords T) u of
        None \<Rightarrow> []
      | Some t \<Rightarrow> [\<lparr>reason = ''suspicious URL pattern'', weight = 0.3\<rparr>])"

text \<open>Modelled from the spec: empty or whitespace-only content (\<open>server.py\<close> is
  missing).\<close>

definition blank :: "string \<Rightarrow> bool" where
  "blank txt = list_all (\<lambda>c. of_char c \<in> {9, 10, 11, 12, 13, 32 :: nat}) txt"

text \<open>Modelled from the spec: steps 1 and 2 of the scoring algorithm, the categories
  that run for each content type, in scan order; a URL whose hostname cannot be
  extracted is scored by categories 1, 2 and 4 only (\<open>server.py\<close> is missing).\<close>

definition detections :: "RuleTables \<Rightarrow> ClassificationRequest \<Rightarrow> Detection list" where
  "detections T r =
     (if blank (content_c r) then []
      else case contentType r of
        Text \<Rightarrow>
          (let n = normalize T (content_c r)
           in explicit_category T n @ slang_category T n @ emoji_category T (content_c r)
              @ violence_category T n)
      | Url \<Rightarrow>
          (let u = lower T (content_c r)
           in case hostname T u of
                None \<Rightarrow>
                  explicit_category T u @ slang_category T u @ violence_category T u
              | Some h \<Rightarrow>
                  explicit_category T u @ slang_category T u @ violence_category T u
                  @ domain_category T h @ url_keyword_category T u)
      | Image \<Rightarrow> [])"

text \<open>Modelled from the spec: \<open>classify\<close>, steps 3 to 6 of the scoring algorithm
  (\<open>server.py\<close> is missing).\<close>

definition classify :: "RuleTables \<Rightarrow> ClassificationRequest \<Rightarrow> Verdict" where
  "classify T r =
     (if contentType r = Image then
        \<lparr>isSafe = True, blocked_v = False, confidence = 0, reasons = []\<rparr>
      else
        let ds = detections T r;
            totalScore = sum_list (map weight ds);
            conf = min 1 totalScore;
            safe = conf < threshold (safetyLevel r)
        in \<lparr>isSafe = safe, blocked_v = \<not> safe, confidence = conf,
            reasons = map reason ds\<rparr>)"

section \<open>Sample states\<close>

text \<open>A parent with PIN 1234, a profile, the browser entered from the dashboard with
  \<open>" example.com "\<close> typed into the address bar, a settings screen, a backend that cannot
  be reached, a log entry, and a set of rule tables.\<close>

definition example_user :: User where
  "example_user =
     \<lparr>user_id = Some (js ''u1''), user_email = Some (js ''p@example.com''),
      user_name = Some (js ''Pat''), user_pin = Some (js ''1234'')\<rparr>"

definition example_app :: app where
  "example_app =
     \<lparr>user = Some example_user, token = Some (js ''tok''), mode = Parent,
      selectedProfile = None, effects = []\<rparr>"

definition example_profile :: Profile where
  "example_profile =
     \<lparr>profile_id = js ''k1'', profile_name = js ''Kim'', age = 7,
      maturity_level = js ''strict''\<rparr>"

definition example_browser :: browser where
  "example_browser =
     (initial_browser (enterChildMode example_profile example_app))
       \<lparr>url := js '' example.com ''\<rparr>"

definition example_settings :: "jsstring \<Rightarrow> jsstring \<Rightarrow> settings" where
  "example_settings new confirm =
     \<lparr>user = Some example_user, token = Some (js ''tok''), mode = Parent,
      selectedProfile = None, effects = [],
      pinModalVisible = True, newPin = new, confirmPin = confirm\<rparr>"

definition example_env :: pin_env where
  "example_env = \<lparr>put_pin = (\<lambda>_. Resolved ()), setItem_user = (\<lambda>_. Resolved ())\<rparr>"

definition example_offline :: "analyze_request \<Rightarrow> analyze_response outcome" where
  "example_offline req = Rejected None"

definition example_log :: "bool \<Rightarrow> Log" where
  "example_log safe =
     \<lparr>log_id = js ''l1'', log_profile_id = js ''k1'', log_profile_name = js ''Kim'',
      log_content_type = js ''text'', detected_at = js ''2025-01-01T00:00:00'',
      is_safe = safe, log_confidence = 0.9, log_reasons = [js ''known adult domain''],
      content_snippet = js ''snippet'', log_url = None\<rparr>"

definition example_tables :: RuleTables where
  "example_tables =
     \<lparr>normalize = (\<lambda>t. t), lower = (\<lambda>t. t), hostname = (\<lambda>_. None),
      explicitKeywords = [''xxx''], codedSlang = [''hook up''], suggestiveEmoji = [],
      emojiCap = 3, violenceKeywords = [''kill''], adultDomains = [],
      urlKeywords = [''xxx'']\<rparr>"

definition example_request :: "ContentType \<Rightarrow> SafetyLevel \<Rightarrow> ClassificationRequest" where
  "example_request ct lvl =
     \<lparr>contentType = ct, content_c = ''xxx kill'', context_c = ''http://a.example'',
      safetyLevel = lvl\<rparr>"

section \<open>Auxiliary facts\<close>

lemma posted_append: "posted (xs @ ys) = posted xs @ posted ys"
  by (induction xs rule: posted.induct) simp_all

lemma pins_put_append: "pins_put (xs @ ys) = pins_put xs @ pins_put ys"
  by (induction xs rule: pins_put.induct) simp_all

lemma substring_prefix: "0 \<le> n \<Longrightarrow> substring s 0 n = take (nat n) s"
proof -
  assume n: "0 \<le> n"
  have "take (nat (min n (int (length s)))) s = take (nat n) s"
  proof (cases "n \<le> int (length s)")
    case True
    then show ?thesis by (simp add: min_def)
  next
    case False
    then have "length s \<le> nat n" by linarith
    with False show ?thesis by (simp add: min_def)
  qed
  with n show ?thesis by (simp add: substring_def Let_def max_def)
qed

lemma url_request_loading: "url_request (st\<lparr>loading := b\<rparr>) t = url_request st t"
  by (simp add: url_request_def)

lemma trim_example: "trim (js '' example.com '') = js ''example.com''"
  by (simp add: trim_def js_def isWhiteSpace_def)

lemma example_browser_target: "targetUrl_of example_browser = js ''https://example.com''"
proof -
  have "\<not> startsWith (js ''example.com'') (js ''http://'')"
    and "\<not> startsWith (js ''example.com'') (js ''https://'')"
    by (simp_all add: startsWith_def js_def)
  then show ?thesis
    by (simp add: targetUrl_of_def example_browser_def initial_browser_def trim_example)
       (simp add: js_def)
qed

lemma updatePin_puts:
  "pins_put (effects (case updatePin env st p of Inl (m, s) \<Rightarrow> s | Inr s \<Rightarrow> s))
     = pins_put (effects st) @ [p]"
  by (simp add: updatePin_def store_user_def emit_def Let_def pins_put_append
      split: outcome.splits)

lemma detections_weight_nonneg: "d \<in> set (detections T r) \<Longrightarrow> 0 \<le> weight d"
  by (auto simp add: detections_def explicit_category_def slang_category_def
      emoji_category_def violence_category_def domain_category_def url_keyword_category_def
      Let_def split: ContentType.splits option.splits if_splits)

lemma sum_list_weights_nonneg:
  "(\<And>d. d \<in> set ds \<Longrightarrow> 0 \<le> weight d) \<Longrightarrow> 0 \<le> sum_list (map weight ds)"
  by (induction ds) auto

lemma example_detections:
  "detections example_tables (example_request Text lvl) =
     [\<lparr>reason = ''explicit keyword: xxx'', weight = 0.5\<rparr>,
      \<lparr>reason = ''violence-related content'', weight = 0.4\<rparr>]"
  by (simp add: detections_def example_tables_def example_request_def blank_def
      explicit_category_def slang_category_def emoji_category_def violence_category_def
      first_match_def)

section \<open>Fail-open on a failed analysis request\<close>

text \<open>
  C1. Whenever the POST to \<open>/api/content/analyze\<close> made by \<open>analyzeUrl\<close> rejects,
  \<open>analyzeUrl\<close> returns true; the only changes to the state are the request and the
  \<open>console.error\<close> in the effect trace, so \<open>blocked\<close> and \<open>blockReason\<close> stay as they
  were.
\<close>

theorem analyzeUrl_fail_open:
  assumes "post (url_request st targetUrl) = Rejected e"
  shows "analyzeUrl post st targetUrl =
           (st\<lparr>effects := effects st @ [PostAnalyze (url_request st targetUrl), ConsoleError]\<rparr>,
            True)
         \<and> blocked (fst (analyzeUrl post st targetUrl)) = blocked st
         \<and> blockReason (fst (analyzeUrl post st targetUrl)) = blockReason st"
  using assms by (simp add: analyzeUrl_def emit_def Let_def)

theorem analyzeUrl_fail_open_witness:
  "snd (analyzeUrl (\<lambda>_. Rejected None) example_browser (js ''https://example.com''))
   \<and> \<not> blocked (fst (analyzeUrl (\<lambda>_. Rejected None) example_browser
                      (js ''https://example.com'')))"
  using analyzeUrl_fail_open
    [of "\<lambda>_. Rejected None" example_browser "js ''https://example.com''" None]
  by (simp add: example_browser_def initial_browser_def)

section \<open>The classifier's verdict\<close>

text \<open>
  C2. For every request and all rule tables the verdict of \<open>classify\<close> has a confidence
  between 0 and 1, \<open>isSafe\<close> holds exactly when the confidence is below the threshold of the
  request's safety level, and \<open>blocked\<close> is the negation of \<open>isSafe\<close>, that is, it holds
  exactly when the confidence reaches the threshold.
\<close>

theorem classify_verdict:
  "0 \<le> confidence (classify T r) \<and> confidence (classify T r) \<le> 1
   \<and> isSafe (classify T r) = (confidence (classify T r) < threshold (safetyLevel r))
   \<and> blocked_v (classify T r) = (\<not> isSafe (classify T r))
   \<and> blocked_v (classify T r) = (confidence (classify T r) \<ge> threshold (safetyLevel r))"
proof (cases "contentType r = Image")
  case True
  then show ?thesis by (cases "safetyLevel r") (simp_all add: classify_def)
next
  case False
  have "0 \<le> sum_list (map weight (detections T r))"
    by (rule sum_list_weights_nonneg) (rule detections_weight_nonneg)
  with False show ?thesis by (auto simp add: classify_def Let_def)
qed

theorem classify_verdict_witness:
  "confidence (classify example_tables (example_request Text Strict)) = 0.9
   \<and> blocked_v (classify example_tables (example_request Text Strict))
   \<and> \<not> isSafe (classify example_tables (example_request Text Strict))"
  using classify_verdict [of example_tables "example_request Text Strict"]
  by (simp add: classify_def example_detections) (simp add: example_request_def)

text \<open>
  C3, as amended. The table assigns 0.80 to strict, 0.65 to moderate and 0.50 to lenient,
  so \<open>threshold Strict > threshold Moderate > threshold Lenient\<close>; with the README's age
  bands (strict for ages 5 to 8, moderate for 9 to 12, lenient for 13 and up) the
  threshold strictly decreases as the age band increases.
\<close>

theorem threshold_table:
  "threshold Strict = 0.80 \<and> threshold Moderate = 0.65 \<and> threshold Lenient = 0.50
   \<and> threshold Strict > threshold Moderate \<and> threshold Moderate > threshold Lenient
   \<and> (\<forall>a b. age_band a < age_band b \<longrightarrow> threshold b < threshold a)"
proof -
  have "age_band a < age_band b \<longrightarrow> threshold b < threshold a" for a b
    by (cases a; cases b) simp_all
  then show ?thesis by simp
qed

theorem threshold_table_witness:
  "age_band Strict < age_band Lenient \<and> threshold Lenient < threshold Strict"
proof -
  have "\<forall>a b. age_band a < age_band b \<longrightarrow> threshold b < threshold a"
    using threshold_table by blast
  then show ?thesis by simp
qed

text \<open>
  C3, as stated, asks the thresholds to increase strictly with the age band. The strict
  level belongs to a younger band than the moderate one and has the larger threshold.
\<close>

theorem threshold_increasing_with_age_counterexample:
  "age_band Strict < age_band Moderate \<and> \<not> threshold Strict < threshold Moderate"
  by simp

text \<open>
  C4. A request whose content type is image gets the verdict \<open>isSafe = True\<close>,
  \<open>confidence = 0\<close>, \<open>reasons = []\<close>, \<open>blocked = False\<close>, whatever its content, its safety
  level and the rule tables; no rule category contributes a detection.
\<close>

theorem classify_image:
  assumes "contentType r = Image"
  shows "classify T r = \<lparr>isSafe = True, blocked_v = False, confidence = 0, reasons = []\<rparr>
         \<and> detections T r = []"
  using assms by (simp add: classify_def detections_def)

theorem classify_image_witness:
  "contentType (example_request Image Strict) = Image
   \<and> classify example_tables (example_request Image Strict)
       = \<lparr>isSafe = True, blocked_v = False, confidence = 0, reasons = []\<rparr>
   \<and> classify example_tables (example_request Text Strict)
       \<noteq> \<lparr>isSafe = True, blocked_v = False, confidence = 0, reasons = []\<rparr>"
proof -
  have img: "contentType (example_request Image Strict) = Image"
    by (simp add: example_request_def)
  have "reasons (classify example_tables (example_request Text Strict)) \<noteq> []"
    by (simp add: classify_def example_detections) (simp add: example_request_def)
  then have "classify example_tables (example_request Text Strict)
       \<noteq> \<lparr>isSafe = True, blocked_v = False, confidence = 0, reasons = []\<rparr>"
    by auto
  with img classify_image [OF img, of example_tables] show ?thesis by simp
qed

section \<open>The child browser\<close>

text \<open>
  C5. When \<open>handleNavigate\<close> reaches the analysis and the response says \<open>blocked\<close>, the
  browser ends with \<open>blocked\<close> set, \<open>blockReason\<close> equal to the reasons joined by
  \<open>", "\<close>, and \<open>currentUrl\<close> as it was; when the response says not blocked,
  \<open>currentUrl\<close> becomes the target URL and \<open>blocked\<close> is cleared. For any URL,
  \<open>analyzeUrl\<close> itself sets \<open>blocked\<close> and \<open>blockReason\<close> and returns false on a
  blocked response.
\<close>

theorem blocked_drives_block_screen:
  assumes "trim (url st) \<noteq> []"
      and "post (url_request st (targetUrl_of st)) = Resolved d"
  shows "(blocked_d d \<longrightarrow>
            blocked (handleNavigate post st) \<and>
            blockReason (handleNavigate post st) = join (reasons_d d) (js '', '') \<and>
            currentUrl (handleNavigate post st) = currentUrl st)
       \<and> (\<not> blocked_d d \<longrightarrow>
            currentUrl (handleNavigate post st) = targetUrl_of st \<and>
            \<not> blocked (handleNavigate post st))
       \<and> (\<forall>u r. post (url_request st u) = Resolved r \<and> blocked_d r \<longrightarrow>
            analyzeUrl post st u =
              (st\<lparr>effects := effects st @ [PostAnalyze (url_request st u)],
                  blocked := True, blockReason := join (reasons_d r) (js '', '')\<rparr>, False))"
  using assms
  by (simp add: handleNavigate_def analyzeUrl_def targetUrl_of_def Let_def emit_def
      url_request_loading)

theorem blocked_drives_block_screen_witness:
  "blocked (handleNavigate
       (\<lambda>_. Resolved \<lparr>blocked_d = True, reasons_d = [js ''a'', js ''b'']\<rparr>) example_browser)
   \<and> blockReason (handleNavigate
       (\<lambda>_. Resolved \<lparr>blocked_d = True, reasons_d = [js ''a'', js ''b'']\<rparr>) example_browser)
        = js ''a, b''
   \<and> currentUrl (handleNavigate
       (\<lambda>_. Resolved \<lparr>blocked_d = True, reasons_d = [js ''a'', js ''b'']\<rparr>) example_browser)
        = js ''https://www.google.com''
   \<and> currentUrl (handleNavigate
       (\<lambda>_. Resolved \<lparr>blocked_d = False, reasons_d = []\<rparr>) example_browser)
        = js ''https://example.com''
   \<and> \<not> blocked (handleNavigate
       (\<lambda>_. Resolved \<lparr>blocked_d = False, reasons_d = []\<rparr>) example_browser)"
proof -
  have ne: "trim (url example_browser) \<noteq> []"
    by (simp add: example_browser_def initial_browser_def trim_example) (simp add: js_def)
  have cur: "currentUrl example_browser = js ''https://www.google.com''"
    by (simp add: example_browser_def initial_browser_def)
  have j: "js ''a'' @ js '', '' @ js ''b'' = js ''a, b''"
    by (simp add: js_def)
  from blocked_drives_block_screen [OF ne, of
      "\<lambda>_. Resolved \<lparr>blocked_d = True, reasons_d = [js ''a'', js ''b'']\<rparr>"
      "\<lparr>blocked_d = True, reasons_d = [js ''a'', js ''b'']\<rparr>"]
    blocked_drives_block_screen [OF ne, of
      "\<lambda>_. Resolved \<lparr>blocked_d = False, reasons_d = []\<rparr>"
      "\<lparr>blocked_d = False, reasons_d = []\<rparr>"]
  show ?thesis by (simp add: cur j example_browser_target)
qed

text \<open>
  C7, as amended. For every page text, the message the injected script posts makes
  \<open>handleWebViewMessage\<close> submit exactly one request, of content type \<open>text\<close>, whose
  content is the first 500 code units of the page text; its length is at most 500.
  \<open>handleWebViewMessage\<close> itself submits the content of any message of type \<open>text\<close> as
  it arrives.
\<close>

theorem injected_text_bounded:
  "posted (effects (handleWebViewMessage post st (injectedJavaScript innerText)))
     = posted (effects st) @ [text_request st (take 500 innerText)]
   \<and> content_type (text_request st (take 500 innerText)) = js ''text''
   \<and> content (text_request st (take 500 innerText)) = take 500 innerText
   \<and> length (content (text_request st (take 500 innerText))) \<le> 500
   \<and> posted (effects (handleWebViewMessage post st (Parsed (js ''text'') c)))
     = posted (effects st) @ [text_request st c]
   \<and> content (text_request st c) = c"
  by (simp add: handleWebViewMessage_def injectedJavaScript_def substring_prefix Let_def
      emit_def posted_append text_request_def split: outcome.splits)

theorem injected_text_bounded_witness:
  "map (\<lambda>r. length (content r))
     (posted (effects (handleWebViewMessage (\<lambda>_. Rejected None) example_browser
        (injectedJavaScript (replicate 600 0x61))))) = [500]"
proof -
  have "posted (effects example_browser) = []"
    by (simp add: example_browser_def initial_browser_def enterChildMode_def
        example_app_def example_user_def emit_def no_pin_def pin_of_def js_def)
  with injected_text_bounded [of "\<lambda>_. Rejected None" example_browser "replicate 600 0x61"]
  show ?thesis by simp
qed

text \<open>
  C7, as stated, bounds every text chunk the browser submits by 500. The \<open>WebView\<close>
  delivers to \<open>handleWebViewMessage\<close> whatever a script of the loaded page passes to
  \<open>postMessage\<close>; for a message of type \<open>text\<close> carrying 600 code units the request
  submitted carries all 600.
\<close>

theorem submitted_text_bounded_counterexample:
  "\<not> length (content (last (posted (effects
        (handleWebViewMessage example_offline example_browser
           (Parsed (js ''text'') (replicate 600 0x61))))))) \<le> 500"
  by (simp add: handleWebViewMessage_def Let_def emit_def posted_append text_request_def
      example_offline_def)

text \<open>
  C8. When the trimmed address is not empty, \<open>handleNavigate\<close> submits exactly one
  request, for the target URL, and a navigation that is allowed loads that same URL. The
  target is \<open>"https://"\<close> followed by the trimmed address when the address starts with
  neither \<open>"http://"\<close> nor \<open>"https://"\<close>, and the trimmed address itself otherwise.
\<close>

theorem handleNavigate_normalizes_protocol:
  assumes "trim (url st) \<noteq> []"
  shows "posted (effects (handleNavigate post st))
           = posted (effects st) @ [url_request st (targetUrl_of st)]
       \<and> content (url_request st (targetUrl_of st)) = targetUrl_of st
       \<and> (snd (analyzeUrl post (st\<lparr>loading := True\<rparr>) (targetUrl_of st)) \<longrightarrow>
            currentUrl (handleNavigate post st) = targetUrl_of st)
       \<and> (\<not> startsWith (trim (url st)) (js ''http://'') \<and>
          \<not> startsWith (trim (url st)) (js ''https://'') \<longrightarrow>
            targetUrl_of st = js ''https://'' @ trim (url st))
       \<and> (startsWith (trim (url st)) (js ''http://'') \<or>
          startsWith (trim (url st)) (js ''https://'') \<longrightarrow>
            targetUrl_of st = trim (url st))"
  using assms
  by (auto simp add: handleNavigate_def analyzeUrl_def targetUrl_of_def Let_def emit_def
      posted_append url_request_def split: outcome.splits)

theorem handleNavigate_normalizes_protocol_witness:
  "trim (url example_browser) = js ''example.com''
   \<and> map content (posted (effects (handleNavigate (\<lambda>_. Rejected None) example_browser)))
       = [js ''https://example.com'']
   \<and> currentUrl (handleNavigate (\<lambda>_. Rejected None) example_browser)
       = js ''https://example.com''"
proof -
  have t: "trim (url example_browser) = js ''example.com''"
    by (simp add: example_browser_def initial_browser_def trim_example)
  have ne: "trim (url example_browser) \<noteq> []"
    by (simp add: t) (simp add: js_def)
  have p: "posted (effects example_browser) = []"
    by (simp add: example_browser_def initial_browser_def enterChildMode_def
        example_app_def example_user_def emit_def no_pin_def pin_of_def js_def)
  have a: "snd (analyzeUrl (\<lambda>_. Rejected None) (example_browser\<lparr>loading := True\<rparr>)
                  (targetUrl_of example_browser))"
    by (simp add: analyzeUrl_def Let_def)
  from handleNavigate_normalizes_protocol [OF ne, of "\<lambda>_. Rejected None"] a
  show ?thesis by (simp add: t p example_browser_target)
qed

section \<open>The Activity Logs screen\<close>

text \<open>
  C6. Every entry the Activity Logs screen renders has \<open>is_safe\<close> false: the rendered
  list is the loaded list with the entries whose \<open>is_safe\<close> is true removed, so no such
  entry is displayed.
\<close>

theorem filteredLogs_only_unsafe:
  "(\<forall>log \<in> set (filteredLogs logs). \<not> is_safe log)
   \<and> (\<forall>log \<in> set logs. is_safe log \<longrightarrow> log \<notin> set (filteredLogs logs))
   \<and> (\<forall>log \<in> set logs. \<not> is_safe log \<longrightarrow> log \<in> set (filteredLogs logs))"
  by (simp add: filteredLogs_def)

theorem filteredLogs_only_unsafe_witness:
  "filteredLogs [example_log True, example_log False] = [example_log False]
   \<and> \<not> is_safe (example_log False)"
  using filteredLogs_only_unsafe [of "[example_log True, example_log False]"]
  by (simp add: filteredLogs_def example_log_def)

section \<open>PIN gating\<close>

text \<open>
  C9. \<open>enterChildMode\<close> leaves mode and selected profile alone when the user has no PIN,
  so a run of it that switches from parent to child mode had a non-empty PIN. In child
  mode, \<open>verifyPinAndExit\<close> switches to parent mode exactly when the entered PIN equals
  the user's PIN; on a mismatch the mode is unchanged and the PIN input is cleared. The
  other handlers of the browser never change the mode.
\<close>

theorem pin_gating:
  "(no_pin (user a) \<longrightarrow>
      mode (enterChildMode profile a) = mode a \<and>
      selectedProfile (enterChildMode profile a) = selectedProfile a)
 \<and> (mode (enterChildMode profile a) = Child \<and> mode a = Parent \<longrightarrow>
      (\<exists>p. pin_of (user a) = Some p \<and> p \<noteq> []))
 \<and> (mode st = Child \<longrightarrow>
      (mode (verifyPinAndExit st) = Parent \<longleftrightarrow> pin_of (user st) = Some (pin st)))
 \<and> (pin_of (user st) \<noteq> Some (pin st) \<longrightarrow>
      mode (verifyPinAndExit st) = mode st \<and> pin (verifyPinAndExit st) = [])
 \<and> mode (handleExitChildMode st) = mode st
 \<and> mode (handleUnblock st) = mode st
 \<and> mode (handleNavigate post st) = mode st
 \<and> mode (handleWebViewMessage post st ev) = mode st"
proof -
  have enter: "(no_pin (user a) \<longrightarrow>
      mode (enterChildMode profile a) = mode a \<and>
      selectedProfile (enterChildMode profile a) = selectedProfile a)
   \<and> (mode (enterChildMode profile a) = Child \<and> mode a = Parent \<longrightarrow>
      (\<exists>p. pin_of (user a) = Some p \<and> p \<noteq> []))"
    by (auto simp add: enterChildMode_def emit_def no_pin_def split: option.splits)
  have verify: "(mode st = Child \<longrightarrow>
      (mode (verifyPinAndExit st) = Parent \<longleftrightarrow> pin_of (user st) = Some (pin st)))
   \<and> (pin_of (user st) \<noteq> Some (pin st) \<longrightarrow>
      mode (verifyPinAndExit st) = mode st \<and> pin (verifyPinAndExit st) = [])"
    by (auto simp add: verifyPinAndExit_def emit_def)
  have others: "mode (handleExitChildMode st) = mode st \<and> mode (handleUnblock st) = mode st"
    by (simp add: handleExitChildMode_def handleUnblock_def emit_def)
  have nav: "mode (handleNavigate post st) = mode st"
    by (simp add: handleNavigate_def analyzeUrl_def Let_def emit_def split: outcome.splits)
  have msg: "mode (handleWebViewMessage post st ev) = mode st"
    by (simp add: handleWebViewMessage_def Let_def emit_def
        split: message.splits outcome.splits)
  from enter verify others nav msg show ?thesis by simp
qed

theorem pin_gating_witness:
  "mode (enterChildMode example_profile example_app) = Child
   \<and> mode (enterChildMode example_profile (example_app\<lparr>user := None\<rparr>)) = Parent
   \<and> mode (verifyPinAndExit (example_browser\<lparr>pin := js ''1234''\<rparr>)) = Parent
   \<and> mode (verifyPinAndExit (example_browser\<lparr>pin := js ''1235''\<rparr>)) = Child
   \<and> pin (verifyPinAndExit (example_browser\<lparr>pin := js ''1235''\<rparr>)) = []"
proof -
  have np: "no_pin (user (example_app\<lparr>user := None\<rparr>))"
    by (simp add: no_pin_def pin_of_def)
  have m: "mode (example_app\<lparr>user := None\<rparr>) = Parent"
    by (simp add: example_app_def)
  have e: "mode (enterChildMode example_profile example_app) = Child"
    by (simp add: enterChildMode_def example_app_def example_user_def emit_def no_pin_def
        pin_of_def js_def)
  have b: "mode example_browser = Child"
    by (simp add: example_browser_def initial_browser_def e)
  have u: "pin_of (user example_browser) = Some (js ''1234'')"
    by (simp add: example_browser_def initial_browser_def enterChildMode_def example_app_def
        example_user_def emit_def no_pin_def pin_of_def)
  have d: "js ''1234'' \<noteq> js ''1235''"
    by (simp add: js_def)
  from pin_gating [of "example_app\<lparr>user := None\<rparr>" example_profile
      "example_browser\<lparr>pin := js ''1234''\<rparr>"]
    pin_gating [of example_app example_profile "example_browser\<lparr>pin := js ''1235''\<rparr>"]
  show ?thesis using np m e b u d by simp
qed

section \<open>PIN update in Settings\<close>

text \<open>
  C10. \<open>handlePinUpdate\<close> sends the new PIN to \<open>updatePin\<close>, once, exactly when the new PIN
  has four code units, all of them decimal digits, and equals the confirmation; in every
  other case it sends nothing and the user, with the stored PIN, is unchanged.
\<close>

theorem handlePinUpdate_validation:
  "pins_put (effects (handlePinUpdate env st)) =
     pins_put (effects st) @
       (if length (newPin st) = 4 \<and> list_all isDigit (newPin st) \<and> newPin st = confirmPin st
        then [newPin st] else [])
   \<and> (\<not> (length (newPin st) = 4 \<and> list_all isDigit (newPin st) \<and> newPin st = confirmPin st)
        \<longrightarrow> user (handlePinUpdate env st) = user st)"
  using updatePin_puts [of env st "newPin st"]
  by (auto simp add: handlePinUpdate_def test_4_digits_def emit_def pins_put_append
      split: sum.splits prod.splits)

theorem handlePinUpdate_validation_witness:
  "pins_put (effects (handlePinUpdate example_env (example_settings (js ''4321'') (js ''4321''))))
     = [js ''4321'']
   \<and> pins_put (effects (handlePinUpdate example_env (example_settings (js ''43a1'') (js ''43a1''))))
     = []
   \<and> pins_put (effects (handlePinUpdate example_env (example_settings (js ''4321'') (js ''4322''))))
     = []
   \<and> pin_of (user (handlePinUpdate example_env (example_settings (js ''43a1'') (js ''43a1''))))
     = Some (js ''1234'')"
proof -
  have ok: "length (js ''4321'') = 4 \<and> list_all isDigit (js ''4321'')"
    by (simp add: js_def isDigit_def)
  have bad: "\<not> list_all isDigit (js ''43a1'')"
    by (simp add: js_def isDigit_def)
  have ne: "js ''4321'' \<noteq> js ''4322''"
    by (simp add: js_def)
  from handlePinUpdate_validation [of example_env "example_settings (js ''4321'') (js ''4321'')"]
    handlePinUpdate_validation [of example_env "example_settings (js ''43a1'') (js ''43a1'')"]
    handlePinUpdate_validation [of example_env "example_settings (js ''4321'') (js ''4322'')"]
  show ?thesis using ok bad ne
    by (simp add: example_settings_def pin_of_def example_user_def)
qed

end
